theory Spec2Isabelle
  imports
    Complex_Main
    "HOL-Library.Char_ord"
    "HOL-Library.List_Lexorder"
    "HOL-Library.Product_Lexorder"
    "HOL-Library.Multiset"
begin

section \<open>Site visit recency analysis (Recent\_Site\_Visits\_Spreadsheet.py)\<close>

text \<open>
  The script loads rows with a \<open>Site\<close> and a \<open>Date\<close> column, converts the dates,
  keeps the rows of the target sites, takes the latest date of every site, classifies
  the age of that date, adds a row for every target site without a visit, sorts the
  rows, computes summary statistics and formats the dates of the rows (lines 114 to
  222 of the source).  Writing the workbook and printing the report (lines 225 to
  363) are input and output; they only read these values and are not part of the
  model, which answers with the frame that line 365 returns.

  What the script takes from its surroundings is made explicit:
  \<^item> the table returned by the spreadsheet service, or the exception raised while the
    credentials were read or while the sheet was opened and read (\<open>fetch\<close>);
  \<^item> the wall clock read by \<open>datetime.now()\<close> (\<open>now\<close>);
  \<^item> the order in which Python enumerates the set \<open>sites_no_data\<close>
    (\<open>set_order\<close>);
  \<^item> the date parsers of pandas for \<open>format='mixed'\<close> and \<open>format='%m/%d/%Y'\<close>, which
    read every cell on its own, and for \<open>infer_datetime_format=True\<close>, which reads
    the column as a whole.
  Date cells are strings that a parser either turns into a timestamp or rejects.
  Cells that pandas reads without parsing them (an empty cell and the spellings of
  \<open>NaT\<close> and \<open>nan\<close>, which become \<open>NaT\<close>, and \<open>now\<close> and \<open>today\<close>, which
  become the time of the run) and cells that are no strings are outside the model.
\<close>

subsection \<open>Configuration\<close>

definition TARGET_SITES :: "string list" where
  "TARGET_SITES =
     [''NANT'', ''BLCK'', ''AMAG'', ''MRCH'', ''HEMP'', ''HOOK'', ''LOVE'',
      ''BRIG'', ''WILD'', ''SILD'', ''OLDB'', ''PORT'', ''CAPE'', ''LEWE'', ''HLPN'',
      ''SEAB'', ''BRAD'', ''SPRK'', ''HLGT'', ''BRMR'', ''RATH'', ''WOOD'', ''CMPT'']"

subsection \<open>Data\<close>

text \<open>A timestamp is a number of nanoseconds since 1970-01-01T00:00:00, as in
  \<open>datetime64[ns]\<close>; Python integers and the differences taken here do not wrap.\<close>

type_synonym timestamp = int

definition ns_per_day :: int where
  "ns_per_day = 86400000000000"

datatype priority = HIGH | MEDIUM | LOW

text \<open>One row of the frame \<open>latest_visits\<close>.  \<open>Last_Visit_Date = None\<close> is the
  \<open>None\<close> of a row added for a site without visits.\<close>

record site_status =
  Site :: string
  Last_Visit_Date :: "timestamp option"
  Days_Since_Visit :: int
  Visit_Required :: bool
  Priority :: priority

text \<open>The dictionary \<open>summary_stats\<close>, one field per key in the order of the source.
  A mean or maximum of an empty selection is \<open>NaN\<close> in pandas, here \<open>None\<close>; the mean
  is kept as the exact quotient, without the rounding of a float.\<close>

record summary_stats =
  total_target_sites :: nat
  sites_requiring_visit :: nat
  sites_ok :: nat
  high_priority :: nat
  medium_priority :: nat
  low_priority :: nat
  average_days_since_visit :: "rat option"
  maximum_days_since_visit :: "int option"
  sites_with_no_data :: nat

text \<open>A frame as returned by \<open>pd.DataFrame(records)\<close>: named columns of string cells,
  all of the same length.\<close>

type_synonym dataframe = "(string \<times> string list) list"

text \<open>The exceptions that leave the function with their own class, and any other class
  by its name.\<close>

datatype py_exception =
    KeyError string
  | ValueError
  | OverflowError
  | AttributeError
  | TypeError
  | FileNotFoundError
  | OtherException string

text \<open>What loading meets: the credentials are read at lines 70 to 75, outside every
  \<open>try\<close>; the sheet is opened and read at lines 79 to 104, inside the \<open>try\<close> of line
  78.\<close>

datatype fetch =
    CredentialsRaised py_exception
  | SheetRaised py_exception
  | Fetched dataframe

datatype 'a outcome = Returned 'a | ReturnedNone | Raised py_exception

record environment =
  parse_mixed :: "string \<Rightarrow> timestamp option"
  parse_mdY :: "string \<Rightarrow> timestamp option"
  infer_datetime :: "string list \<Rightarrow> timestamp list option"
  set_order :: "string \<Rightarrow> nat"
  now :: timestamp

subsection \<open>Calendar dates and the format \<open>%m/%d/%y\<close>\<close>

text \<open>Day numbers of the proleptic Gregorian calendar, as \<open>_ymd2ord\<close> of Python's
  \<open>datetime\<close> computes them; day 719163 is 1970-01-01.\<close>

definition is_leap :: "int \<Rightarrow> bool" where
  "is_leap y = (y mod 4 = 0 \<and> (y mod 100 \<noteq> 0 \<or> y mod 400 = 0))"

definition days_before_year :: "int \<Rightarrow> int" where
  "days_before_year y = (y - 1) * 365 + (y - 1) div 4 - (y - 1) div 100 + (y - 1) div 400"

definition days_in_month :: "int \<Rightarrow> nat \<Rightarrow> int" where
  "days_in_month y m =
     (if m = 2 then (if is_leap y then 29 else 28)
      else if m = 4 \<or> m = 6 \<or> m = 9 \<or> m = 11 then 30 else 31)"

definition days_before_month :: "int \<Rightarrow> nat \<Rightarrow> int" where
  "days_before_month y m = sum_list (map (days_in_month y) [1..<m])"

definition ymd2ord :: "int \<Rightarrow> nat \<Rightarrow> int \<Rightarrow> int" where
  "ymd2ord y m d = days_before_year y + days_before_month y m + d"

definition midnight :: "int \<Rightarrow> nat \<Rightarrow> int \<Rightarrow> timestamp" where
  "midnight y m d = (ymd2ord y m d - 719163) * ns_per_day"

definition digit :: "char \<Rightarrow> nat option" where
  "digit c = (let n = (of_char c :: nat) in if 48 \<le> n \<and> n \<le> 57 then Some (n - 48) else None)"

fun split_on :: "char \<Rightarrow> string \<Rightarrow> string list" where
  "split_on c [] = [[]]"
| "split_on c (x # xs) =
     (if x = c then [] # split_on c xs
      else (case split_on c xs of [] \<Rightarrow> [[x]] | w # ws \<Rightarrow> (x # w) # ws))"

text \<open>The fields of \<open>strptime\<close>: \<open>%m\<close> matches \<open>1[0-2]|0[1-9]|[1-9]\<close>, \<open>%d\<close> matches
  \<open>3[01]|[12]\d|0[1-9]|[1-9]| [1-9]\<close>, \<open>%y\<close> matches two digits, and a two-digit
  year up to 68 is in the 2000s, from 69 in the 1900s.\<close>

definition month_field :: "string \<Rightarrow> nat option" where
  "month_field s =
     (case map digit s of
        [Some a] \<Rightarrow> (if 1 \<le> a then Some a else None)
      | [Some a, Some b] \<Rightarrow>
          (if a = 1 \<and> b \<le> 2 then Some (10 + b)
           else if a = 0 \<and> 1 \<le> b then Some b else None)
      | _ \<Rightarrow> None)"

definition day_field :: "string \<Rightarrow> nat option" where
  "day_field s =
     (case s of
        [a] \<Rightarrow> (case digit a of Some x \<Rightarrow> (if 1 \<le> x then Some x else None) | None \<Rightarrow> None)
      | [a, b] \<Rightarrow>
          (case digit b of
             None \<Rightarrow> None
           | Some y \<Rightarrow>
               (if a = CHR '' '' then (if 1 \<le> y then Some y else None)
                else (case digit a of
                        None \<Rightarrow> None
                      | Some x \<Rightarrow>
                          (if x = 3 \<and> y \<le> 1 then Some (30 + y)
                           else if x = 1 \<or> x = 2 then Some (10 * x + y)
                           else if x = 0 \<and> 1 \<le> y then Some y else None))))
      | _ \<Rightarrow> None)"

definition year_field :: "string \<Rightarrow> int option" where
  "year_field s =
     (case map digit s of
        [Some a, Some b] \<Rightarrow>
          (let v = 10 * a + b in Some (if v \<le> 68 then 2000 + int v else 1900 + int v))
      | _ \<Rightarrow> None)"

definition strptime_mdy :: "string \<Rightarrow> timestamp option" where
  "strptime_mdy s =
     (case split_on (CHR ''/'') s of
        [ms, ds, ys] \<Rightarrow>
          (case (month_field ms, day_field ds, year_field ys) of
             (Some m, Some d, Some y) \<Rightarrow>
               (if int d \<le> days_in_month y m then Some (midnight y m (int d)) else None)
           | _ \<Rightarrow> None)
      | _ \<Rightarrow> None)"


subsection \<open>Loading and date conversion\<close>

text \<open>\<open>load_data_from_google_sheets\<close> lets an exception of the credentials escape; it
  catches every exception raised while the sheet is opened and read, prints it and
  returns \<open>None\<close>.\<close>

definition load_data_from_google_sheets :: "fetch \<Rightarrow> py_exception + dataframe option" where
  "load_data_from_google_sheets f =
     (case f of
        CredentialsRaised e \<Rightarrow> Inl e
      | SheetRaised e \<Rightarrow> Inr None
      | Fetched df \<Rightarrow> Inr (Some df))"

definition getitem :: "dataframe \<Rightarrow> string \<Rightarrow> py_exception + string list" where
  "getitem df c = (case map_of df c of None \<Rightarrow> Inl (KeyError c) | Some col \<Rightarrow> Inr col)"

text \<open>A parser that reads every cell on its own converts a column when it accepts all
  cells.\<close>

definition elementwise :: "(string \<Rightarrow> timestamp option) \<Rightarrow> string list \<Rightarrow> timestamp list option" where
  "elementwise p col = those (map p col)"

text \<open>\<open>pd.to_datetime(df['Date'], ...)\<close> with one way of reading the column: it converts
  the whole column or raises; pandas reports a value it cannot parse with
  \<open>ValueError\<close> or a subclass.\<close>

definition to_datetime ::
  "(string list \<Rightarrow> timestamp list option) \<Rightarrow> dataframe \<Rightarrow> py_exception + timestamp list" where
  "to_datetime conv df =
     (case getitem df ''Date'' of
        Inl e \<Rightarrow> Inl e
      | Inr col \<Rightarrow> (case conv col of None \<Rightarrow> Inl ValueError | Some ds \<Rightarrow> Inr ds))"

text \<open>The nested \<open>try\<close>/\<open>except\<close> of lines 134 to 146: a bare \<open>except\<close> catches whatever the
  attempt raised; the last attempt is outside every \<open>try\<close>.\<close>

definition convert_dates ::
  "(string list \<Rightarrow> timestamp list option) \<Rightarrow> (string list \<Rightarrow> timestamp list option) \<Rightarrow>
   (string list \<Rightarrow> timestamp list option) \<Rightarrow> (string list \<Rightarrow> timestamp list option) \<Rightarrow>
   dataframe \<Rightarrow> py_exception + timestamp list" where
  "convert_dates c1 c2 c3 c4 df =
     (case to_datetime c1 df of
        Inr ds \<Rightarrow> Inr ds
      | Inl _ \<Rightarrow>
          (case to_datetime c2 df of
             Inr ds \<Rightarrow> Inr ds
           | Inl _ \<Rightarrow>
               (case to_datetime c3 df of
                  Inr ds \<Rightarrow> Inr ds
                | Inl _ \<Rightarrow> to_datetime c4 df)))"

subsection \<open>The analysis\<close>

definition isin_targets :: "string list \<Rightarrow> (string \<times> timestamp) list \<Rightarrow> (string \<times> timestamp) list" where
  "isin_targets targets recs = filter (\<lambda>r. fst r \<in> set targets) recs"

text \<open>\<open>groupby('Site')['Date'].max().reset_index()\<close>: one row per site that occurs, in
  ascending order of the site, with the maximum of its dates.\<close>

definition dates_of :: "string \<Rightarrow> (string \<times> timestamp) list \<Rightarrow> timestamp list" where
  "dates_of s recs = map snd (filter (\<lambda>r. fst r = s) recs)"

definition groupby_max :: "(string \<times> timestamp) list \<Rightarrow> (string \<times> timestamp) list" where
  "groupby_max recs = map (\<lambda>s. (s, Max (set (dates_of s recs)))) (sort (remdups (map fst recs)))"

text \<open>\<open>(today - date).dt.days\<close> is the floor of the difference in days.  The
  difference is a 64-bit count of nanoseconds: where it does not fit, the subtraction
  of line 161 raises \<open>OverflowError\<close>, which \<open>analyze_records\<close> below answers.\<close>

definition fits_int64 :: "int \<Rightarrow> bool" where
  "fits_int64 x = (- (2 ^ 63) < x \<and> x < 2 ^ 63)"

definition days_since :: "timestamp \<Rightarrow> timestamp \<Rightarrow> int" where
  "days_since today d = (today - d) div ns_per_day"

definition get_priority :: "int \<Rightarrow> priority" where
  "get_priority days = (if days > 180 then HIGH else if days > 120 then MEDIUM else LOW)"

definition visit_row :: "timestamp \<Rightarrow> string \<times> timestamp \<Rightarrow> site_status" where
  "visit_row today r =
     \<lparr>Site = fst r, Last_Visit_Date = Some (snd r),
      Days_Since_Visit = days_since today (snd r),
      Visit_Required = (days_since today (snd r) > 180),
      Priority = get_priority (days_since today (snd r))\<rparr>"

definition new_row :: "string \<Rightarrow> site_status" where
  "new_row s =
     \<lparr>Site = s, Last_Visit_Date = None, Days_Since_Visit = 999,
      Visit_Required = True, Priority = HIGH\<rparr>"

text \<open>\<open>set(TARGET_SITES) - sites_with_data\<close>, and the loop over it.  Python fixes no
  order for the elements of a set: the rows are appended in the order of an
  arbitrary ranking \<open>h\<close> of the sites.\<close>

definition sites_no_data :: "string list \<Rightarrow> site_status list \<Rightarrow> string list" where
  "sites_no_data targets rows = filter (\<lambda>s. s \<notin> set (map Site rows)) (remdups targets)"

definition backfill :: "(string \<Rightarrow> nat) \<Rightarrow> string list \<Rightarrow> site_status list \<Rightarrow> site_status list" where
  "backfill h targets rows = rows @ map new_row (sort_key h (sites_no_data targets rows))"

definition priority_order :: "priority \<Rightarrow> nat" where
  "priority_order p = (case p of HIGH \<Rightarrow> 0 | MEDIUM \<Rightarrow> 1 | LOW \<Rightarrow> 2)"

text \<open>\<open>sort_values(['Priority_Order', 'Days_Since_Visit'], ascending=[True, False])\<close>:
  a stable sort on the pair of keys.\<close>

definition sort_values :: "site_status list \<Rightarrow> site_status list" where
  "sort_values rows = sort_key (\<lambda>r. (priority_order (Priority r), - Days_Since_Visit r)) rows"

text \<open>The frame \<open>latest_visits\<close> before the rows without data are added (lines 151 to
  175), and as it is returned (line 199).\<close>

definition visited_rows :: "string list \<Rightarrow> timestamp \<Rightarrow> (string \<times> timestamp) list \<Rightarrow> site_status list" where
  "visited_rows targets today recs = map (visit_row today) (groupby_max (isin_targets targets recs))"

definition latest_visits ::
  "string list \<Rightarrow> (string \<Rightarrow> nat) \<Rightarrow> timestamp \<Rightarrow> (string \<times> timestamp) list \<Rightarrow> site_status list" where
  "latest_visits targets h today recs =
     sort_values (backfill h targets (visited_rows targets today recs))"

definition series_mean :: "int list \<Rightarrow> rat option" where
  "series_mean xs = (if xs = [] then None else Some (of_int (sum_list xs) / of_nat (length xs)))"

definition series_max :: "int list \<Rightarrow> int option" where
  "series_max xs = (if xs = [] then None else Some (Max (set xs)))"

definition summarize :: "site_status list \<Rightarrow> summary_stats" where
  "summarize rows =
     \<lparr>total_target_sites = length rows,
      sites_requiring_visit = length (filter Visit_Required rows),
      sites_ok = length (filter (\<lambda>r. \<not> Visit_Required r) rows),
      high_priority = length (filter (\<lambda>r. Priority r = HIGH) rows),
      medium_priority = length (filter (\<lambda>r. Priority r = MEDIUM) rows),
      low_priority = length (filter (\<lambda>r. Priority r = LOW) rows),
      average_days_since_visit =
        series_mean (map Days_Since_Visit (filter (\<lambda>r. Days_Since_Visit r < 999) rows)),
      maximum_days_since_visit =
        series_max (map Days_Since_Visit (filter (\<lambda>r. Days_Since_Visit r < 999) rows)),
      sites_with_no_data = length (filter (\<lambda>r. Days_Since_Visit r = 999) rows)\<rparr>"

text \<open>An environment for examples: \<open>format='mixed'\<close> reads a date written as
  month/day/two-digit year the way \<open>%m/%d/%y\<close> does, the two later attempts reject
  everything, and the set of sites without data is enumerated in the order of
  \<open>TARGET_SITES\<close> (all names have the same length, and the sort is stable).\<close>

definition reject :: "string \<Rightarrow> timestamp option" where
  "reject s = None"

definition reject_column :: "string list \<Rightarrow> timestamp list option" where
  "reject_column col = None"

definition reference_env :: "timestamp \<Rightarrow> environment" where
  "reference_env today =
     \<lparr>parse_mixed = strptime_mdy, parse_mdY = reject, infer_datetime = reject_column,
      set_order = length, now = today\<rparr>"

text \<open>Another enumeration order of a set of sites: by the first letter.\<close>

definition first_letter :: "string \<Rightarrow> nat" where
  "first_letter s = (case s of [] \<Rightarrow> 0 | c # _ \<Rightarrow> of_char c)"

text \<open>Lines 150 to 222 on the converted records.  The subtraction of line 161 raises
  \<open>OverflowError\<close> when the difference to the latest date of a site does not fit.  At
  line 216 the column \<open>Last_Visit_Date\<close> is a datetime column only if the frame had a
  row before the rows without data were added; otherwise it holds nothing but
  \<open>None\<close> and \<open>.dt\<close> raises \<open>AttributeError\<close>.\<close>

definition analyze_records ::
  "environment \<Rightarrow> (string \<times> timestamp) list \<Rightarrow> (site_status list \<times> summary_stats) outcome" where
  "analyze_records env recs =
     (if \<not> list_all (\<lambda>g. fits_int64 (now env - snd g)) (groupby_max (isin_targets TARGET_SITES recs))
      then Raised OverflowError
      else (let rows = latest_visits TARGET_SITES (set_order env) (now env) recs
            in if visited_rows TARGET_SITES (now env) recs = [] then Raised AttributeError
               else Returned (rows, summarize rows)))"

text \<open>The function of the source: it lets an exception of the credentials escape,
  returns \<open>None\<close> when opening or reading the sheet failed, lets the exception of the
  date conversion or of \<open>df['Site']\<close> escape, and otherwise analyzes the records.\<close>

definition analyze_site_visits_from_sheets ::
  "environment \<Rightarrow> fetch \<Rightarrow> (site_status list \<times> summary_stats) outcome" where
  "analyze_site_visits_from_sheets env f =
     (case load_data_from_google_sheets f of
        Inl e \<Rightarrow> Raised e
      | Inr None \<Rightarrow> ReturnedNone
      | Inr (Some df) \<Rightarrow>
          (case convert_dates (elementwise (parse_mixed env)) (elementwise strptime_mdy)
                  (elementwise (parse_mdY env)) (infer_datetime env) df of
             Inl e \<Rightarrow> Raised e
           | Inr dates \<Rightarrow>
               (case getitem df ''Site'' of
                  Inl e \<Rightarrow> Raised e
                | Inr sites \<Rightarrow> analyze_records env (zip sites dates))))"

subsection \<open>Date normalization as the specification words it\<close>

text \<open>The format hypotheses are tried in a fixed order; the first one that parses every
  row of the batch is used for all rows; if there is none, the batch fails with a parse
  error.  This definition follows the specification and is compared with
  \<open>convert_dates\<close> below.\<close>

definition parses_batch :: "(string list \<Rightarrow> timestamp list option) \<Rightarrow> string list \<Rightarrow> bool" where
  "parses_batch c col = (c col \<noteq> None)"

definition first_format_for_batch ::
  "(string list \<Rightarrow> timestamp list option) list \<Rightarrow> string list \<Rightarrow> py_exception + timestamp list" where
  "first_format_for_batch cs col =
     (case find (\<lambda>c. parses_batch c col) cs of
        None \<Rightarrow> Inl ValueError
      | Some c \<Rightarrow> Inr (the (c col)))"

section \<open>Properties\<close>

subsection \<open>The sites of the rows\<close>

lemma Site_visit_row: "Site (visit_row today r) = fst r"
  by (simp add: visit_row_def)

lemma Site_new_row: "Site (new_row s) = s"
  by (simp add: new_row_def)

lemma map_fst_groupby_max: "map fst (groupby_max recs) = sort (remdups (map fst recs))"
  by (simp add: groupby_max_def comp_def)

lemma map_Site_visited_rows:
  "map Site (visited_rows targets today recs) = sort (remdups (map fst (isin_targets targets recs)))"
proof -
  have "map Site (visited_rows targets today recs) = map fst (groupby_max (isin_targets targets recs))"
    by (simp add: visited_rows_def comp_def Site_visit_row)
  then show ?thesis by (simp add: map_fst_groupby_max)
qed

lemma set_Site_visited_rows:
  "set (map Site (visited_rows targets today recs)) = fst ` set recs \<inter> set targets"
  unfolding map_Site_visited_rows by (auto simp: isin_targets_def)

lemma distinct_Site_visited_rows: "distinct (map Site (visited_rows targets today recs))"
  unfolding map_Site_visited_rows by simp

lemma map_Site_backfill:
  "map Site (backfill h targets rows) = map Site rows @ sort_key h (sites_no_data targets rows)"
  by (simp add: backfill_def comp_def Site_new_row)

lemma set_sites_no_data: "set (sites_no_data targets rows) = set targets - set (map Site rows)"
  by (auto simp: sites_no_data_def)

lemma distinct_sites_no_data: "distinct (sites_no_data targets rows)"
  by (simp add: sites_no_data_def)

lemma distinct_Site_backfill:
  "distinct (map Site rows) \<Longrightarrow> distinct (map Site (backfill h targets rows))"
  unfolding map_Site_backfill by (auto simp: distinct_sites_no_data set_sites_no_data)

lemma set_Site_backfill:
  "set (map Site (backfill h targets rows)) = set (map Site rows) \<union> set targets"
  unfolding map_Site_backfill by (auto simp: set_sites_no_data)

lemma mset_sort_values: "mset (sort_values rows) = mset rows"
  by (simp add: sort_values_def)

lemma set_sort_values: "set (sort_values rows) = set rows"
  by (simp add: sort_values_def)

lemma distinct_map_sort_values: "distinct (map f (sort_values rows)) = distinct (map f rows)"
  by (simp add: sort_values_def distinct_map)

lemma filter_sort_values: "filter P (sort_values rows) = sort_values (filter P rows)"
  by (simp add: sort_values_def filter_sort)

lemma set_Site_latest_visits:
  "set (map Site (latest_visits targets h today recs)) = set targets"
proof -
  have "set (map Site (latest_visits targets h today recs))
        = Site ` set (backfill h targets (visited_rows targets today recs))"
    by (simp add: latest_visits_def set_sort_values)
  also have "\<dots> = set (map Site (backfill h targets (visited_rows targets today recs)))"
    by simp
  also have "\<dots> = set targets"
    unfolding set_Site_backfill set_Site_visited_rows by auto
  finally show ?thesis .
qed

lemma distinct_Site_latest_visits:
  "distinct (map Site (latest_visits targets h today recs))"
  unfolding latest_visits_def distinct_map_sort_values
  by (rule distinct_Site_backfill) (rule distinct_Site_visited_rows)

subsection \<open>The row of a site\<close>

lemma filter_eq_distinct:
  "distinct xs \<Longrightarrow> s \<in> set xs \<Longrightarrow> filter (\<lambda>x. x = s) xs = [s]"
  by (induction xs) (auto simp: filter_empty_conv)

lemma filter_eq_absent: "s \<notin> set xs \<Longrightarrow> filter (\<lambda>x. x = s) xs = []"
  by (induction xs) auto

lemma dates_of_isin_targets:
  "s \<in> set targets \<Longrightarrow> dates_of s (isin_targets targets recs) = dates_of s recs"
proof -
  assume s: "s \<in> set targets"
  have "filter (\<lambda>r. fst r = s) (filter (\<lambda>r. fst r \<in> set targets) recs) = filter (\<lambda>r. fst r = s) recs"
    unfolding filter_filter by (rule filter_cong) (use s in auto)
  then show ?thesis by (simp add: dates_of_def isin_targets_def)
qed

lemma visited_rows_alt:
  "visited_rows targets today recs =
     map (\<lambda>s. visit_row today (s, Max (set (dates_of s (isin_targets targets recs)))))
       (sort (remdups (map fst (isin_targets targets recs))))"
  by (simp add: visited_rows_def groupby_max_def comp_def)

lemma filter_Site_visited_rows:
  assumes "s \<in> set targets" and "s \<in> fst ` set recs"
  shows "filter (\<lambda>r. Site r = s) (visited_rows targets today recs)
         = [visit_row today (s, Max (set (dates_of s recs)))]"
proof -
  let ?keys = "sort (remdups (map fst (isin_targets targets recs)))"
  have keys: "distinct ?keys" "s \<in> set ?keys"
    using assms by (auto simp: isin_targets_def)
  have "filter (\<lambda>r. Site r = s) (visited_rows targets today recs)
        = map (\<lambda>s. visit_row today (s, Max (set (dates_of s (isin_targets targets recs)))))
            (filter (\<lambda>x. x = s) ?keys)"
    unfolding visited_rows_alt filter_map by (simp add: comp_def Site_visit_row)
  also have "filter (\<lambda>x. x = s) ?keys = [s]"
    using keys by (rule filter_eq_distinct)
  finally show ?thesis
    using assms(1) by (simp add: dates_of_isin_targets)
qed


lemma filter_Site_new_rows:
  "filter (\<lambda>r. Site r = s) (map new_row xs) = map new_row (filter (\<lambda>x. x = s) xs)"
  by (simp add: filter_map comp_def Site_new_row)

lemma sort_values_single: "sort_values [r] = [r]"
  by (simp add: sort_values_def)

text \<open>The row of a site in the result.\<close>

lemma row_of_visited_site:
  assumes "s \<in> set targets" and "s \<in> fst ` set recs"
  shows "filter (\<lambda>r. Site r = s) (latest_visits targets h today recs)
         = [visit_row today (s, Max (set (dates_of s recs)))]"
proof -
  have "s \<in> set (map Site (visited_rows targets today recs))"
    unfolding set_Site_visited_rows using assms by simp
  then have "s \<notin> set (sort_key h (sites_no_data targets (visited_rows targets today recs)))"
    by (simp add: set_sites_no_data)
  then have "filter (\<lambda>x. x = s) (sort_key h (sites_no_data targets (visited_rows targets today recs))) = []"
    by (rule filter_eq_absent)
  then have "filter (\<lambda>r. Site r = s) (backfill h targets (visited_rows targets today recs))
        = [visit_row today (s, Max (set (dates_of s recs)))]"
    unfolding backfill_def filter_append filter_Site_new_rows
    by (simp add: filter_Site_visited_rows [OF assms])
  then show ?thesis
    by (simp add: latest_visits_def filter_sort_values sort_values_single)
qed


text \<open>Every row is a visit row or an added row.\<close>

lemma set_latest_visits:
  "set (latest_visits targets h today recs)
   = set (visited_rows targets today recs)
     \<union> new_row ` (set targets - set (map Site (visited_rows targets today recs)))"
  by (simp add: latest_visits_def set_sort_values backfill_def set_sites_no_data)

lemma visited_row_has_date:
  "r \<in> set (visited_rows targets today recs) \<Longrightarrow>
     \<exists>d. Last_Visit_Date r = Some d \<and> Days_Since_Visit r = days_since today d
        \<and> Visit_Required r = (180 < Days_Since_Visit r) \<and> Priority r = get_priority (Days_Since_Visit r)"
  by (auto simp: visited_rows_def visit_row_def)

lemma row_cases:
  assumes "r \<in> set (latest_visits targets h today recs)"
  shows "(Last_Visit_Date r = None \<and> Days_Since_Visit r = 999 \<and> Priority r = HIGH \<and> Visit_Required r)
       \<or> (\<exists>d. Last_Visit_Date r = Some d \<and> Days_Since_Visit r = days_since today d
             \<and> Visit_Required r = (180 < Days_Since_Visit r)
             \<and> Priority r = get_priority (Days_Since_Visit r))"
  using assms unfolding set_latest_visits
  by (auto simp: new_row_def dest: visited_row_has_date)

lemma sorted_latest_visits:
  "sorted (map (\<lambda>r. (priority_order (Priority r), - Days_Since_Visit r)) (latest_visits targets h today recs))"
  by (simp add: latest_visits_def sort_values_def)

lemma priority_order_inj: "priority_order p = priority_order q \<longleftrightarrow> p = q"
  by (cases p; cases q) (simp_all add: priority_order_def)

subsection \<open>Results\<close>

lemma analyze_Fetched:
  "analyze_site_visits_from_sheets env (Fetched df) =
     (case convert_dates (elementwise (parse_mixed env)) (elementwise strptime_mdy)
             (elementwise (parse_mdY env)) (infer_datetime env) df of
        Inl e \<Rightarrow> Raised e
      | Inr dates \<Rightarrow>
          (case getitem df ''Site'' of
             Inl e \<Rightarrow> Raised e
           | Inr sites \<Rightarrow> analyze_records env (zip sites dates)))"
  by (simp add: analyze_site_visits_from_sheets_def load_data_from_google_sheets_def)

lemma analyze_SheetRaised: "analyze_site_visits_from_sheets env (SheetRaised e) = ReturnedNone"
  by (simp add: analyze_site_visits_from_sheets_def load_data_from_google_sheets_def)

lemma analyze_CredentialsRaised:
  "analyze_site_visits_from_sheets env (CredentialsRaised e) = Raised e"
  by (simp add: analyze_site_visits_from_sheets_def load_data_from_google_sheets_def)

lemma analyze_records_Returned:
  "analyze_records env recs = Returned (rows, st) \<Longrightarrow>
     rows = latest_visits TARGET_SITES (set_order env) (now env) recs \<and> st = summarize rows"
  by (auto simp: analyze_records_def Let_def split: if_splits)

lemma analyze_Returned_rows:
  assumes "analyze_site_visits_from_sheets env f = Returned (rows, st)"
  shows "\<exists>recs. rows = latest_visits TARGET_SITES (set_order env) (now env) recs \<and> st = summarize rows"
proof (cases f)
  case (Fetched df)
  with assms show ?thesis
    by (auto simp: analyze_Fetched split: sum.splits dest: analyze_records_Returned)
next
  case (SheetRaised e)
  with assms show ?thesis by (simp add: analyze_SheetRaised)
next
  case (CredentialsRaised e)
  with assms show ?thesis by (simp add: analyze_CredentialsRaised)
qed

text \<open>
  Claim C1.  For every list of records, every list of target sites, every reference
  time and every enumeration order of the set of sites without data, the rows of
  \<open>latest_visits\<close> name every target site exactly once and no other site: the
  sites of the rows are pairwise distinct, they are exactly the target sites, and
  there are as many rows as target sites.  Whenever the analyzer returns, its rows
  have this property for the 23 sites of \<open>TARGET_SITES\<close>.
\<close>

theorem one_row_per_target_site:
  "distinct (map Site (latest_visits targets h today recs))
   \<and> set (map Site (latest_visits targets h today recs)) = set targets
   \<and> length (latest_visits targets h today recs) = card (set targets)
   \<and> (analyze_site_visits_from_sheets env f = Returned (rows, st) \<longrightarrow>
        distinct (map Site rows) \<and> set (map Site rows) = set TARGET_SITES \<and> length rows = 23)"
proof -
  have len: "length (latest_visits ts g t rs) = card (set ts)" for ts g t rs
  proof -
    have "length (latest_visits ts g t rs) = length (map Site (latest_visits ts g t rs))"
      by simp
    also have "\<dots> = card (set (map Site (latest_visits ts g t rs)))"
      using distinct_Site_latest_visits by (rule distinct_card [symmetric])
    finally show ?thesis by (simp only: set_Site_latest_visits)
  qed
  have "distinct TARGET_SITES" by (simp add: TARGET_SITES_def)
  then have "card (set TARGET_SITES) = length TARGET_SITES" by (rule distinct_card)
  then have card: "card (set TARGET_SITES) = 23" by (simp add: TARGET_SITES_def)
  have top: "distinct (map Site rows) \<and> set (map Site rows) = set TARGET_SITES \<and> length rows = 23"
    if "analyze_site_visits_from_sheets env f = Returned (rows, st)"
  proof -
    from analyze_Returned_rows [OF that] obtain rs
      where "rows = latest_visits TARGET_SITES (set_order env) (now env) rs" by blast
    then show ?thesis
      using distinct_Site_latest_visits set_Site_latest_visits len card by simp
  qed
  show ?thesis
    using distinct_Site_latest_visits set_Site_latest_visits len top by blast
qed

text \<open>A run that returns: one visit of NANT and one row of a site that is no target.\<close>

theorem one_row_per_target_site_witness:
  "analyze_site_visits_from_sheets (reference_env (midnight 2024 8 1))
       (Fetched [(''Site'', [''NANT'', ''ELSE'']), (''Date'', [''06/01/24'', ''07/01/24''])])
     = Returned (latest_visits TARGET_SITES length (midnight 2024 8 1) [(''NANT'', midnight 2024 6 1)],
                 summarize (latest_visits TARGET_SITES length (midnight 2024 8 1) [(''NANT'', midnight 2024 6 1)]))
   \<and> distinct (map Site (latest_visits TARGET_SITES length (midnight 2024 8 1) [(''NANT'', midnight 2024 6 1)]))
   \<and> set (map Site (latest_visits TARGET_SITES length (midnight 2024 8 1) [(''NANT'', midnight 2024 6 1)])) = set TARGET_SITES
   \<and> length (latest_visits TARGET_SITES length (midnight 2024 8 1) [(''NANT'', midnight 2024 6 1)]) = 23"
proof -
  have run: "analyze_site_visits_from_sheets (reference_env (midnight 2024 8 1))
       (Fetched [(''Site'', [''NANT'', ''ELSE'']), (''Date'', [''06/01/24'', ''07/01/24''])])
     = Returned (latest_visits TARGET_SITES length (midnight 2024 8 1) [(''NANT'', midnight 2024 6 1)],
                 summarize (latest_visits TARGET_SITES length (midnight 2024 8 1) [(''NANT'', midnight 2024 6 1)]))"
    by code_simp
  from one_row_per_target_site [of _ _ _ _ "reference_env (midnight 2024 8 1)"
      "Fetched [(''Site'', [''NANT'', ''ELSE'']), (''Date'', [''06/01/24'', ''07/01/24''])]"
      "latest_visits TARGET_SITES length (midnight 2024 8 1) [(''NANT'', midnight 2024 6 1)]"
      "summarize (latest_visits TARGET_SITES length (midnight 2024 8 1) [(''NANT'', midnight 2024 6 1)])"] run
  show ?thesis by blast
qed

lemma get_priority_999: "get_priority 999 = HIGH"
  by (simp add: get_priority_def)

lemma row_priority:
  "r \<in> set (latest_visits targets h today recs) \<Longrightarrow> Priority r = get_priority (Days_Since_Visit r)"
  using row_cases [of r targets h today recs] by (auto simp: get_priority_999)

text \<open>
  Claim C2.  The priority is a function of the days since the visit that splits the
  integers into three disjoint ranges: HIGH exactly above 180, MEDIUM exactly above
  120 and up to 180, LOW exactly up to 120; 180 days is MEDIUM and 120 days is LOW.
  Every row of the result, the added rows included, carries the priority that
  \<open>get_priority\<close> gives for its days.
\<close>

theorem priority_partition:
  "(get_priority d = HIGH \<longleftrightarrow> 180 < d)
   \<and> (get_priority d = MEDIUM \<longleftrightarrow> 120 < d \<and> d \<le> 180)
   \<and> (get_priority d = LOW \<longleftrightarrow> d \<le> 120)
   \<and> get_priority 180 = MEDIUM
   \<and> get_priority 120 = LOW
   \<and> map Priority (latest_visits targets h today recs)
       = map (\<lambda>r. get_priority (Days_Since_Visit r)) (latest_visits targets h today recs)"
proof -
  have "map Priority (latest_visits targets h today recs)
       = map (\<lambda>r. get_priority (Days_Since_Visit r)) (latest_visits targets h today recs)"
    by (rule map_cong) (simp_all add: row_priority)
  then show ?thesis by (simp add: get_priority_def)
qed



lemma ns_per_day_pos: "0 < ns_per_day"
  by (simp add: ns_per_day_def)

lemma Max_dates_of:
  assumes "(s, d) \<in> set recs" and "\<forall>d' \<in> set (dates_of s recs). d' \<le> d"
  shows "Max (set (dates_of s recs)) = d"
proof (rule Max_eqI)
  show "finite (set (dates_of s recs))" by simp
  show "y \<le> d" if "y \<in> set (dates_of s recs)" for y using that assms(2) by blast
  show "d \<in> set (dates_of s recs)" using assms(1) by (force simp: dates_of_def)
qed

text \<open>
  Claim C10.  When the most recent visit of a target site lies after the reference time,
  the days since the visit are negative (the floor of a negative difference), and the
  site has exactly one row, with that date, priority LOW and no visit required;
  \<open>get_priority\<close> answers LOW for every integer up to 120, the negative ones included.
\<close>

theorem future_visit_is_low:
  assumes "s \<in> set targets" and "(s, d) \<in> set recs"
    and "\<forall>d' \<in> set (dates_of s recs). d' \<le> d" and "today < d"
  shows "days_since today d < 0
     \<and> filter (\<lambda>r. Site r = s) (latest_visits targets h today recs)
         = [\<lparr>Site = s, Last_Visit_Date = Some d, Days_Since_Visit = days_since today d,
             Visit_Required = False, Priority = LOW\<rparr>]
     \<and> (\<forall>n. n \<le> 120 \<longrightarrow> get_priority n = LOW)"
proof -
  have neg: "days_since today d < 0"
    using assms(4) by (simp add: days_since_def pos_imp_zdiv_neg_iff ns_per_day_pos)
  have "s \<in> fst ` set recs" using assms(2) by force
  from row_of_visited_site [OF assms(1) this]
  have "filter (\<lambda>r. Site r = s) (latest_visits targets h today recs) = [visit_row today (s, d)]"
    by (simp add: Max_dates_of [OF assms(2,3)])
  with neg show ?thesis
    by (simp add: visit_row_def get_priority_def)
qed

text \<open>Two visits of NANT, the later one two nanoseconds after the reference time.\<close>

theorem future_visit_is_low_witness:
  "''NANT'' \<in> set TARGET_SITES \<and> (''NANT'', 5) \<in> set [(''NANT'', 1), (''NANT'', 5 :: timestamp)]
   \<and> dates_of ''NANT'' [(''NANT'', 1), (''NANT'', 5)] = [1, 5] \<and> (3 :: timestamp) < 5
   \<and> days_since 3 5 < 0
   \<and> filter (\<lambda>r. Site r = ''NANT'') (latest_visits TARGET_SITES length 3 [(''NANT'', 1), (''NANT'', 5)])
       = [\<lparr>Site = ''NANT'', Last_Visit_Date = Some 5, Days_Since_Visit = days_since 3 5,
           Visit_Required = False, Priority = LOW\<rparr>]
   \<and> get_priority (- 1) = LOW"
proof -
  have a: "''NANT'' \<in> set TARGET_SITES" by (simp add: TARGET_SITES_def)
  have b: "(''NANT'', 5) \<in> set [(''NANT'', 1), (''NANT'', 5 :: timestamp)]" by simp
  have c: "\<forall>d' \<in> set (dates_of ''NANT'' [(''NANT'', 1), (''NANT'', 5)]). d' \<le> 5"
    by (simp add: dates_of_def)
  have d: "(3 :: timestamp) < 5" by simp
  have e: "dates_of ''NANT'' [(''NANT'', 1), (''NANT'', 5 :: timestamp)] = [1, 5]"
    by (simp add: dates_of_def)
  show ?thesis
    using a b d e future_visit_is_low [OF a b c d, of length] by simp
qed

subsection \<open>Sort order and statistics\<close>

text \<open>Claim C3 as stated fails: a site last visited on 2020-01-01, 1674 days before the
  reference time 2024-08-01, is a HIGH row with data; it stands first, before the
  rows of the 22 sites without data.\<close>

theorem no_data_not_first_counterexample:
  "Last_Visit_Date (latest_visits TARGET_SITES length (midnight 2024 8 1) [(''BLCK'', midnight 2020 1 1)] ! 0)
     = Some (midnight 2020 1 1)
   \<and> Days_Since_Visit (latest_visits TARGET_SITES length (midnight 2024 8 1) [(''BLCK'', midnight 2020 1 1)] ! 0) = 1674
   \<and> Priority (latest_visits TARGET_SITES length (midnight 2024 8 1) [(''BLCK'', midnight 2020 1 1)] ! 0) = HIGH
   \<and> Last_Visit_Date (latest_visits TARGET_SITES length (midnight 2024 8 1) [(''BLCK'', midnight 2020 1 1)] ! 1) = None
   \<and> Priority (latest_visits TARGET_SITES length (midnight 2024 8 1) [(''BLCK'', midnight 2020 1 1)] ! 1) = HIGH"
  by code_simp

lemma sorted_wrt_latest_visits:
  "sorted_wrt (\<lambda>a b. priority_order (Priority a) < priority_order (Priority b)
                   \<or> (Priority a = Priority b \<and> Days_Since_Visit b \<le> Days_Since_Visit a))
     (latest_visits targets h today recs)"
proof -
  have "sorted_wrt (\<lambda>a b. (priority_order (Priority a), - Days_Since_Visit a)
                         \<le> (priority_order (Priority b), - Days_Since_Visit b))
          (latest_visits targets h today recs)"
    using sorted_latest_visits [of targets h today recs] by (simp only: sorted_map)
  then show ?thesis
  proof (rule sorted_wrt_mono_rel [rotated])
    fix a b
    assume "(priority_order (Priority a), - Days_Since_Visit a)
              \<le> (priority_order (Priority b), - Days_Since_Visit b)"
    then show "priority_order (Priority a) < priority_order (Priority b)
                   \<or> (Priority a = Priority b \<and> Days_Since_Visit b \<le> Days_Since_Visit a)"
      using priority_order_inj [of "Priority a" "Priority b"] by auto
  qed
qed

lemma priority_order_HIGH: "priority_order HIGH = 0"
  by (simp add: priority_order_def)

text \<open>
  Claim C3, amended.  The rows are sorted: the rank of the priority never decreases
  (HIGH, then MEDIUM, then LOW) and, among rows of equal priority, the days since
  the visit never increase.  A row without data carries 999 days: it stands before
  every row with data whose days are below 999.
\<close>

theorem sort_order:
  fixes targets h today recs
  defines "rows \<equiv> latest_visits targets h today recs"
  shows "sorted_wrt (\<lambda>a b. priority_order (Priority a) < priority_order (Priority b)
                   \<or> (Priority a = Priority b \<and> Days_Since_Visit b \<le> Days_Since_Visit a)) rows
     \<and> (\<forall>i j. i < length rows \<and> j < length rows
            \<and> Last_Visit_Date (rows ! i) = None \<and> Last_Visit_Date (rows ! j) \<noteq> None
            \<and> Days_Since_Visit (rows ! j) < 999 \<longrightarrow> i < j)"
proof -
  let ?P = "\<lambda>a b. priority_order (Priority a) < priority_order (Priority b)
                   \<or> (Priority a = Priority b \<and> Days_Since_Visit b \<le> Days_Since_Visit a)"
  have srt: "sorted_wrt ?P rows"
    unfolding rows_def by (rule sorted_wrt_latest_visits)
  have "i < j" if ij: "i < length rows" "j < length rows"
      and i: "Last_Visit_Date (rows ! i) = None"
      and j: "Last_Visit_Date (rows ! j) \<noteq> None" "Days_Since_Visit (rows ! j) < 999" for i j
  proof (rule ccontr)
    assume "\<not> i < j"
    moreover have "i \<noteq> j" using i j by auto
    ultimately have "j < i" by simp
    from sorted_wrt_nth_less [OF srt this ij(1)]
    have ord: "?P (rows ! j) (rows ! i)" .
    have "rows ! i \<in> set (latest_visits targets h today recs)"
      using ij(1) unfolding rows_def by simp
    from row_cases [OF this] i
    have "Days_Since_Visit (rows ! i) = 999" "Priority (rows ! i) = HIGH" by auto
    with ord j(2) show False by (auto simp: priority_order_HIGH)
  qed
  with srt show ?thesis by blast
qed

text \<open>NANT visited 213 days ago and BLCK never: the row of BLCK comes first.\<close>

theorem sort_order_witness:
  "(0 :: nat) < length (latest_visits [''NANT'', ''BLCK''] length (midnight 2024 8 1) [(''NANT'', midnight 2024 1 1)])
   \<and> 1 < length (latest_visits [''NANT'', ''BLCK''] length (midnight 2024 8 1) [(''NANT'', midnight 2024 1 1)])
   \<and> Last_Visit_Date (latest_visits [''NANT'', ''BLCK''] length (midnight 2024 8 1) [(''NANT'', midnight 2024 1 1)] ! 0) = None
   \<and> Last_Visit_Date (latest_visits [''NANT'', ''BLCK''] length (midnight 2024 8 1) [(''NANT'', midnight 2024 1 1)] ! 1) \<noteq> None
   \<and> Days_Since_Visit (latest_visits [''NANT'', ''BLCK''] length (midnight 2024 8 1) [(''NANT'', midnight 2024 1 1)] ! 1) < 999
   \<and> (0 :: nat) < 1
   \<and> sorted_wrt (\<lambda>a b. priority_order (Priority a) < priority_order (Priority b)
                   \<or> (Priority a = Priority b \<and> Days_Since_Visit b \<le> Days_Since_Visit a))
        (latest_visits [''NANT'', ''BLCK''] length (midnight 2024 8 1) [(''NANT'', midnight 2024 1 1)])"
proof -
  have ev: "latest_visits [''NANT'', ''BLCK''] length (midnight 2024 8 1) [(''NANT'', midnight 2024 1 1)]
    = [\<lparr>Site = ''BLCK'', Last_Visit_Date = None, Days_Since_Visit = 999, Visit_Required = True, Priority = HIGH\<rparr>,
       \<lparr>Site = ''NANT'', Last_Visit_Date = Some (midnight 2024 1 1), Days_Since_Visit = 213,
          Visit_Required = True, Priority = HIGH\<rparr>]"
    by code_simp
  have hyp: "(0 :: nat) < length (latest_visits [''NANT'', ''BLCK''] length (midnight 2024 8 1) [(''NANT'', midnight 2024 1 1)])
   \<and> 1 < length (latest_visits [''NANT'', ''BLCK''] length (midnight 2024 8 1) [(''NANT'', midnight 2024 1 1)])
   \<and> Last_Visit_Date (latest_visits [''NANT'', ''BLCK''] length (midnight 2024 8 1) [(''NANT'', midnight 2024 1 1)] ! 0) = None
   \<and> Last_Visit_Date (latest_visits [''NANT'', ''BLCK''] length (midnight 2024 8 1) [(''NANT'', midnight 2024 1 1)] ! 1) \<noteq> None
   \<and> Days_Since_Visit (latest_visits [''NANT'', ''BLCK''] length (midnight 2024 8 1) [(''NANT'', midnight 2024 1 1)] ! 1) < 999"
    unfolding ev by simp
  from sort_order [of "[''NANT'', ''BLCK'']" length "midnight 2024 8 1" "[(''NANT'', midnight 2024 1 1)]"] hyp
  show ?thesis by blast
qed

text \<open>
  Claim C5 at a table where NANT was visited 999 days and BLCK 1674 days before the
  reference time 2024-08-01, and AMAG 100 days before it.  Three sites have a visit
  and 20 rows were added; the statistics count 21 sites without data and give 100 as
  mean and as maximum of the days, from the row of AMAG alone.
\<close>

theorem stale_visits_left_out_of_summary:
  "map_outcome snd (analyze_site_visits_from_sheets (reference_env (midnight 2024 8 1))
       (Fetched [(''Site'', [''NANT'', ''BLCK'', ''AMAG'']), (''Date'', [''11/06/21'', ''01/01/20'', ''04/23/24''])]))
     = Returned \<lparr>total_target_sites = 23, sites_requiring_visit = 22, sites_ok = 1,
                 high_priority = 22, medium_priority = 0, low_priority = 1,
                 average_days_since_visit = Some 100, maximum_days_since_visit = Some 100,
                 sites_with_no_data = 21\<rparr>
   \<and> map_outcome (\<lambda>x. map Days_Since_Visit (filter (\<lambda>r. Last_Visit_Date r \<noteq> None) (fst x)))
       (analyze_site_visits_from_sheets (reference_env (midnight 2024 8 1))
       (Fetched [(''Site'', [''NANT'', ''BLCK'', ''AMAG'']), (''Date'', [''11/06/21'', ''01/01/20'', ''04/23/24''])]))
     = Returned [1674, 999, 100]
   \<and> map_outcome (\<lambda>x. length (filter (\<lambda>r. Last_Visit_Date r = None) (fst x)))
       (analyze_site_visits_from_sheets (reference_env (midnight 2024 8 1))
       (Fetched [(''Site'', [''NANT'', ''BLCK'', ''AMAG'']), (''Date'', [''11/06/21'', ''01/01/20'', ''04/23/24''])]))
     = Returned 20"
  by code_simp

subsection \<open>Date conversion and failures\<close>

lemma elementwise_all:
  "elementwise p col = (if list_all (\<lambda>s. p s \<noteq> None) col then Some (map (\<lambda>s. the (p s)) col) else None)"
  unfolding elementwise_def by (induction col) (auto split: option.splits)

lemma to_datetime_col:
  "map_of df ''Date'' = Some col \<Longrightarrow>
     to_datetime c df = (if parses_batch c col then Inr (the (c col)) else Inl ValueError)"
  by (auto simp: to_datetime_def getitem_def parses_batch_def split: option.splits)



lemma convert_dates_col:
  "map_of df ''Date'' = Some col \<Longrightarrow>
     convert_dates c1 c2 c3 c4 df = first_format_for_batch [c1, c2, c3, c4] col"
  by (simp add: convert_dates_def to_datetime_col first_format_for_batch_def)

lemma first_format_for_batch_Inl: "first_format_for_batch cs col = Inl e \<Longrightarrow> e = ValueError"
  by (auto simp: first_format_for_batch_def split: option.splits)

text \<open>
  Claim C6.  When the table has a \<open>Date\<close> column, the date conversion is the first of
  the four ways of reading it, in the order given, that accepts the whole column, and
  the dates it yields are used for all rows; a parser that reads cell by cell accepts
  the column exactly when it accepts every cell.  The analyzer tries
  \<open>format='mixed'\<close>, then \<open>%m/%d/%y\<close>, then \<open>%m/%d/%Y\<close>, then inference; when none
  accepts the column it raises the parse error and returns no rows.
\<close>

theorem date_fallback_chain:
  assumes "map_of df ''Date'' = Some col"
  shows "convert_dates c1 c2 c3 c4 df = first_format_for_batch [c1, c2, c3, c4] col
     \<and> elementwise p col
         = (if list_all (\<lambda>s. p s \<noteq> None) col then Some (map (\<lambda>s. the (p s)) col) else None)
     \<and> analyze_site_visits_from_sheets env (Fetched df) =
         (case first_format_for_batch
                 [elementwise (parse_mixed env), elementwise strptime_mdy,
                  elementwise (parse_mdY env), infer_datetime env] col of
            Inl e \<Rightarrow> Raised ValueError
          | Inr dates \<Rightarrow>
              (case getitem df ''Site'' of
                 Inl e \<Rightarrow> Raised e
               | Inr sites \<Rightarrow> analyze_records env (zip sites dates)))"
proof -
  have "analyze_site_visits_from_sheets env (Fetched df) =
         (case first_format_for_batch
                 [elementwise (parse_mixed env), elementwise strptime_mdy,
                  elementwise (parse_mdY env), infer_datetime env] col of
            Inl e \<Rightarrow> Raised ValueError
          | Inr dates \<Rightarrow>
              (case getitem df ''Site'' of
                 Inl e \<Rightarrow> Raised e
               | Inr sites \<Rightarrow> analyze_records env (zip sites dates)))"
    by (auto simp: analyze_Fetched convert_dates_col [OF assms] split: sum.splits
          dest: first_format_for_batch_Inl)
  then show ?thesis
    using convert_dates_col [OF assms] elementwise_all by blast
qed

text \<open>A column that the first attempt rejects and \<open>%m/%d/%y\<close> reads.\<close>

theorem date_fallback_chain_witness:
  "map_of [(''Site'', [''NANT'', ''NANT'']), (''Date'', [''01/01/24'', ''6/1/24''])] ''Date''
     = Some [''01/01/24'', ''6/1/24'']
   \<and> convert_dates (elementwise reject) (elementwise strptime_mdy) (elementwise reject) reject_column
        [(''Site'', [''NANT'', ''NANT'']), (''Date'', [''01/01/24'', ''6/1/24''])]
     = Inr [midnight 2024 1 1, midnight 2024 6 1]
   \<and> convert_dates (elementwise reject) (elementwise strptime_mdy) (elementwise reject) reject_column
        [(''Site'', [''NANT'', ''NANT'']), (''Date'', [''01/01/24'', ''6/1/24''])]
     = first_format_for_batch
         [elementwise reject, elementwise strptime_mdy, elementwise reject, reject_column]
         [''01/01/24'', ''6/1/24'']"
proof -
  have a: "map_of [(''Site'', [''NANT'', ''NANT'']), (''Date'', [''01/01/24'', ''6/1/24''])] ''Date''
     = Some [''01/01/24'', ''6/1/24'']"
    by simp
  have b: "convert_dates (elementwise reject) (elementwise strptime_mdy) (elementwise reject) reject_column
        [(''Site'', [''NANT'', ''NANT'']), (''Date'', [''01/01/24'', ''6/1/24''])]
     = Inr [midnight 2024 1 1, midnight 2024 6 1]"
    by code_simp
  show ?thesis
    using a b date_fallback_chain [OF a, of "elementwise reject" "elementwise strptime_mdy"
        "elementwise reject" reject_column]
    by simp
qed




subsection \<open>Dependence on the enumeration order\<close>

text \<open>Claim C8 as stated fails: a table without a \<open>Site\<close> column, a table whose rows
  name no target site, a sheet that cannot be read and a missing credentials file end
  the run without rows, and none of these failures is a parse failure.  With the same
  records and the same reference time, two enumeration orders of the set of sites
  without data give different sequences of rows.\<close>

theorem other_failures_and_orders_counterexample:
  "analyze_site_visits_from_sheets (reference_env (midnight 2024 8 1)) (Fetched [(''Date'', [''06/01/24''])])
     = Raised (KeyError ''Site'')
   \<and> analyze_site_visits_from_sheets (reference_env (midnight 2024 8 1))
       (Fetched [(''Site'', [''ELSE'']), (''Date'', [''06/01/24''])])
     = Raised AttributeError
   \<and> analyze_site_visits_from_sheets (reference_env (midnight 2024 8 1))
       (SheetRaised (OtherException ''ConnectionError''))
     = ReturnedNone
   \<and> analyze_site_visits_from_sheets (reference_env (midnight 2024 8 1)) (CredentialsRaised TypeError)
     = Raised TypeError
   \<and> map Site (latest_visits TARGET_SITES length (midnight 2024 8 1) [(''NANT'', midnight 2024 6 1)])
       \<noteq> map Site (latest_visits TARGET_SITES first_letter (midnight 2024 8 1) [(''NANT'', midnight 2024 6 1)])"
  by code_simp

lemma mset_latest_visits:
  "mset (latest_visits targets h today recs)
   = mset (visited_rows targets today recs)
     + image_mset new_row (mset (sites_no_data targets (visited_rows targets today recs)))"
  by (simp add: latest_visits_def mset_sort_values backfill_def)

lemma visited_rows_dated:
  "filter (\<lambda>r. Last_Visit_Date r \<noteq> None) (visited_rows targets today recs) = visited_rows targets today recs"
  by (rule filter_True) (auto dest: visited_row_has_date)

lemma new_rows_undated:
  "filter (\<lambda>r. Last_Visit_Date r \<noteq> None) (map new_row xs) = []"
  by (simp add: filter_empty_conv new_row_def)

lemma dated_latest_visits:
  "filter (\<lambda>r. Last_Visit_Date r \<noteq> None) (latest_visits targets h today recs)
   = sort_values (visited_rows targets today recs)"
  unfolding latest_visits_def filter_sort_values backfill_def filter_append
    visited_rows_dated new_rows_undated
  by simp

lemma length_filter_mset: "mset xs = mset ys \<Longrightarrow> length (filter P xs) = length (filter P ys)"
proof -
  assume "mset xs = mset ys"
  then have "mset (filter P xs) = mset (filter P ys)" by simp
  then show ?thesis by (rule mset_eq_length)
qed

lemma series_mean_mset: "mset xs = mset ys \<Longrightarrow> series_mean xs = series_mean ys"
proof -
  assume eq: "mset xs = mset ys"
  then have "sum_list xs = sum_list ys" by (metis sum_mset_sum_list)
  moreover have "length xs = length ys" using eq by (rule mset_eq_length)
  moreover have "xs = [] \<longleftrightarrow> ys = []" using eq by (metis mset_zero_iff)
  ultimately show ?thesis by (simp add: series_mean_def)
qed

lemma series_max_mset: "mset xs = mset ys \<Longrightarrow> series_max xs = series_max ys"
proof -
  assume eq: "mset xs = mset ys"
  then have "set xs = set ys" by (rule mset_eq_setD)
  moreover have "xs = [] \<longleftrightarrow> ys = []" using eq by (metis mset_zero_iff)
  ultimately show ?thesis by (simp add: series_max_def)
qed

lemma mset_days_filter:
  "mset xs = mset ys \<Longrightarrow> mset (map f (filter P xs)) = mset (map f (filter P ys))"
  by simp

lemma summarize_mset:
  assumes "mset xs = mset ys"
  shows "summarize xs = summarize ys"
  unfolding summarize_def
  using mset_eq_length [OF assms] length_filter_mset [OF assms]
    series_mean_mset [OF mset_days_filter [OF assms]]
    series_max_mset [OF mset_days_filter [OF assms]]
  by simp

lemma mset_latest_visits_order:
  "mset (latest_visits targets h' today recs) = mset (latest_visits targets h today recs)"
  by (simp add: mset_latest_visits)


lemma analyze_records_order:
  "(\<exists>rows rows' st.
       analyze_records env recs = Returned (rows, st)
     \<and> analyze_records (env\<lparr>set_order := h'\<rparr>) recs = Returned (rows', st)
     \<and> mset rows' = mset rows
     \<and> filter (\<lambda>r. Last_Visit_Date r \<noteq> None) rows' = filter (\<lambda>r. Last_Visit_Date r \<noteq> None) rows)
   \<or> (\<exists>e. analyze_records env recs = Raised e
       \<and> analyze_records (env\<lparr>set_order := h'\<rparr>) recs = Raised e)"
proof -
  let ?rows = "latest_visits TARGET_SITES (set_order env) (now env) recs"
  let ?rows' = "latest_visits TARGET_SITES h' (now env) recs"
  have m: "mset ?rows' = mset ?rows" by (rule mset_latest_visits_order)
  have s: "summarize ?rows' = summarize ?rows" by (rule summarize_mset [OF m])
  have c: "filter (\<lambda>r. Last_Visit_Date r \<noteq> None) ?rows' = filter (\<lambda>r. Last_Visit_Date r \<noteq> None) ?rows"
    by (simp only: dated_latest_visits)
  consider (overflow) "\<not> list_all (\<lambda>g. fits_int64 (now env - snd g)) (groupby_max (isin_targets TARGET_SITES recs))"
    | (empty) "list_all (\<lambda>g. fits_int64 (now env - snd g)) (groupby_max (isin_targets TARGET_SITES recs))"
        "visited_rows TARGET_SITES (now env) recs = []"
    | (rows) "list_all (\<lambda>g. fits_int64 (now env - snd g)) (groupby_max (isin_targets TARGET_SITES recs))"
        "visited_rows TARGET_SITES (now env) recs \<noteq> []"
    by blast
  then show ?thesis
  proof cases
    case overflow
    then show ?thesis by (simp add: analyze_records_def)
  next
    case empty
    then show ?thesis by (simp add: analyze_records_def Let_def)
  next
    case rows
    then have a: "analyze_records env recs = Returned (?rows, summarize ?rows)"
      by (simp add: analyze_records_def Let_def)
    from rows have "analyze_records (env\<lparr>set_order := h'\<rparr>) recs = Returned (?rows', summarize ?rows')"
      by (simp add: analyze_records_def Let_def)
    then have b: "analyze_records (env\<lparr>set_order := h'\<rparr>) recs = Returned (?rows', summarize ?rows)"
      by (simp only: s)
    from a b m c show ?thesis by blast
  qed
qed

text \<open>
  Claim C8, amended.  For the same input, the same parsers and the same reference
  time, two runs end the same way whatever the enumeration order of the set of sites
  without data: either both return, with the same rows as a multiset, the rows of
  the sites with data in the same order and identical summary statistics; or both
  return \<open>None\<close>; or both raise the same exception.  A run can fail in other ways than
  by a parse failure.
\<close>

theorem determined_up_to_enumeration:
  "(\<exists>rows rows' st.
       analyze_site_visits_from_sheets env f = Returned (rows, st)
     \<and> analyze_site_visits_from_sheets (env\<lparr>set_order := h'\<rparr>) f = Returned (rows', st)
     \<and> mset rows' = mset rows
     \<and> filter (\<lambda>r. Last_Visit_Date r \<noteq> None) rows' = filter (\<lambda>r. Last_Visit_Date r \<noteq> None) rows)
   \<or> (analyze_site_visits_from_sheets env f = ReturnedNone
       \<and> analyze_site_visits_from_sheets (env\<lparr>set_order := h'\<rparr>) f = ReturnedNone)
   \<or> (\<exists>e. analyze_site_visits_from_sheets env f = Raised e
       \<and> analyze_site_visits_from_sheets (env\<lparr>set_order := h'\<rparr>) f = Raised e)"
proof (cases f)
  case (CredentialsRaised e)
  then show ?thesis by (simp add: analyze_CredentialsRaised)
next
  case (SheetRaised e)
  then show ?thesis by (simp add: analyze_SheetRaised)
next
  case (Fetched df)
  let ?conv = "convert_dates (elementwise (parse_mixed env)) (elementwise strptime_mdy)
                 (elementwise (parse_mdY env)) (infer_datetime env) df"
  show ?thesis
  proof (cases ?conv)
    case (Inl e)
    with Fetched show ?thesis by (simp add: analyze_Fetched)
  next
    case (Inr dates)
    show ?thesis
    proof (cases "map_of df ''Site''")
      case None
      with Inr Fetched show ?thesis by (simp add: analyze_Fetched getitem_def)
    next
      case (Some sites)
      have "analyze_site_visits_from_sheets env f = analyze_records env (zip sites dates)"
        "analyze_site_visits_from_sheets (env\<lparr>set_order := h'\<rparr>) f
           = analyze_records (env\<lparr>set_order := h'\<rparr>) (zip sites dates)"
        using Inr Some Fetched by (simp_all add: analyze_Fetched getitem_def)
      then show ?thesis
        using analyze_records_order [of env "zip sites dates" h'] by auto
    qed
  qed
qed

text \<open>A run that returns under both enumeration orders of the counterexample.\<close>

theorem determined_up_to_enumeration_witness:
  "\<exists>rows rows' st.
       analyze_site_visits_from_sheets (reference_env (midnight 2024 8 1))
         (Fetched [(''Site'', [''NANT'']), (''Date'', [''06/01/24''])]) = Returned (rows, st)
     \<and> analyze_site_visits_from_sheets ((reference_env (midnight 2024 8 1))\<lparr>set_order := first_letter\<rparr>)
         (Fetched [(''Site'', [''NANT'']), (''Date'', [''06/01/24''])]) = Returned (rows', st)
     \<and> mset rows' = mset rows
     \<and> filter (\<lambda>r. Last_Visit_Date r \<noteq> None) rows' = filter (\<lambda>r. Last_Visit_Date r \<noteq> None) rows"
proof -
  have "analyze_site_visits_from_sheets (reference_env (midnight 2024 8 1))
         (Fetched [(''Site'', [''NANT'']), (''Date'', [''06/01/24''])])
        = Returned (latest_visits TARGET_SITES length (midnight 2024 8 1) [(''NANT'', midnight 2024 6 1)],
            summarize (latest_visits TARGET_SITES length (midnight 2024 8 1) [(''NANT'', midnight 2024 6 1)]))"
    by code_simp
  with determined_up_to_enumeration [of "reference_env (midnight 2024 8 1)"
      "Fetched [(''Site'', [''NANT'']), (''Date'', [''06/01/24''])]" first_letter]
  show ?thesis by auto
qed

subsection \<open>The scenario of the two NANT records\<close>

lemma days_since_range:
  assumes "d + k * ns_per_day \<le> today" and "today < d + (k + 1) * ns_per_day"
  shows "days_since today d = k"
proof -
  have "today - d = ns_per_day * k + (today - d - k * ns_per_day)" by simp
  moreover have "0 \<le> today - d - k * ns_per_day" using assms(1) by simp
  moreover have "today - d - k * ns_per_day < ns_per_day"
    using assms(2) by (simp add: algebra_simps)
  ultimately show ?thesis
    unfolding days_since_def by (rule int_div_pos_eq)
qed

lemma strptime_jan_1_24: "strptime_mdy ''01/01/24'' = Some (midnight 2024 1 1)"
  by code_simp

lemma strptime_jun_1_24: "strptime_mdy ''06/01/24'' = Some (midnight 2024 6 1)"
  by code_simp

lemma summer_2024:
  "midnight 2024 1 1 \<le> midnight 2024 6 1"
  "midnight 2024 8 1 = midnight 2024 6 1 + 61 * ns_per_day"
  "midnight 2024 8 2 = midnight 2024 6 1 + (61 + 1) * ns_per_day"
  by code_simp+

text \<open>
  Claim C9.  For the two NANT records dated 01/01/24 and 06/01/24 and a reference time
  on 2024-08-01, the analyzer returns, and the row of NANT has the last visit date
  2024-06-01, 61 days since the visit, priority LOW and no visit required.  The
  detection of \<open>format='mixed'\<close> is only assumed to reject a string or to read it as
  month/day/year.  In general the row of a target site with records carries the
  maximum of its dates.
\<close>

theorem nant_scenario:
  assumes m1: "parse_mixed env ''01/01/24'' = None
             \<or> parse_mixed env ''01/01/24'' = Some (midnight 2024 1 1)"
      and m2: "parse_mixed env ''06/01/24'' = None
             \<or> parse_mixed env ''06/01/24'' = Some (midnight 2024 6 1)"
      and t1: "midnight 2024 8 1 \<le> now env" and t2: "now env < midnight 2024 8 2"
  shows "(\<exists>rows st.
       analyze_site_visits_from_sheets env
         (Fetched [(''Site'', [''NANT'', ''NANT'']), (''Date'', [''01/01/24'', ''06/01/24''])])
         = Returned (rows, st)
     \<and> filter (\<lambda>r. Site r = ''NANT'') rows
         = [\<lparr>Site = ''NANT'', Last_Visit_Date = Some (midnight 2024 6 1), Days_Since_Visit = 61,
             Visit_Required = False, Priority = LOW\<rparr>])
   \<and> (s \<in> set targets \<and> s \<in> fst ` set recs \<longrightarrow>
        map Last_Visit_Date (filter (\<lambda>r. Site r = s) (latest_visits targets h today recs))
          = [Some (Max (set (dates_of s recs)))])"
proof -
  let ?df = "[(''Site'', [''NANT'', ''NANT'']), (''Date'', [''01/01/24'', ''06/01/24''])]"
  let ?recs = "[(''NANT'', midnight 2024 1 1), (''NANT'', midnight 2024 6 1)]"
  let ?rows = "latest_visits TARGET_SITES (set_order env) (now env) ?recs"
  have conv: "convert_dates (elementwise (parse_mixed env)) (elementwise strptime_mdy)
                (elementwise (parse_mdY env)) (infer_datetime env) ?df
              = Inr [midnight 2024 1 1, midnight 2024 6 1]"
    using m1 m2
    by (auto simp: convert_dates_def to_datetime_def getitem_def elementwise_def
          strptime_jan_1_24 strptime_jun_1_24)
  have groups: "groupby_max (isin_targets TARGET_SITES ?recs) = [(''NANT'', midnight 2024 6 1)]"
    by code_simp
  have "- (2 ^ 63) < 61 * ns_per_day" "(61 + 1) * ns_per_day < 2 ^ 63"
    by (simp_all add: ns_per_day_def)
  then have fits: "fits_int64 (now env - midnight 2024 6 1)"
    using t1 t2 unfolding fits_int64_def summer_2024 by linarith
  have "visited_rows TARGET_SITES (now env) ?recs \<noteq> []"
    unfolding visited_rows_def groups by simp
  then have "analyze_records env ?recs = Returned (?rows, summarize ?rows)"
    unfolding analyze_records_def groups Let_def using fits by simp
  then have run: "analyze_site_visits_from_sheets env (Fetched ?df) = Returned (?rows, summarize ?rows)"
    by (simp add: analyze_Fetched conv getitem_def)
  have days: "days_since (now env) (midnight 2024 6 1) = 61"
    using t1 t2 by (intro days_since_range) (simp_all only: summer_2024)
  have "Max (set (dates_of ''NANT'' ?recs)) = midnight 2024 6 1"
    using summer_2024(1) by (simp add: dates_of_def)
  moreover have "''NANT'' \<in> set TARGET_SITES" by (simp add: TARGET_SITES_def)
  moreover have "''NANT'' \<in> fst ` set ?recs" by simp
  ultimately have "filter (\<lambda>r. Site r = ''NANT'') ?rows
      = [visit_row (now env) (''NANT'', midnight 2024 6 1)]"
    using row_of_visited_site [of "''NANT''" TARGET_SITES ?recs "set_order env" "now env"] by simp
  then have "filter (\<lambda>r. Site r = ''NANT'') ?rows
         = [\<lparr>Site = ''NANT'', Last_Visit_Date = Some (midnight 2024 6 1), Days_Since_Visit = 61,
             Visit_Required = False, Priority = LOW\<rparr>]"
    by (simp add: visit_row_def days get_priority_def)
  with run have scenario: "\<exists>rows st.
       analyze_site_visits_from_sheets env (Fetched ?df) = Returned (rows, st)
     \<and> filter (\<lambda>r. Site r = ''NANT'') rows
         = [\<lparr>Site = ''NANT'', Last_Visit_Date = Some (midnight 2024 6 1), Days_Since_Visit = 61,
             Visit_Required = False, Priority = LOW\<rparr>]"
    by blast
  have "map Last_Visit_Date (filter (\<lambda>r. Site r = s) (latest_visits targets h today recs))
          = [Some (Max (set (dates_of s recs)))]"
    if "s \<in> set targets" "s \<in> fst ` set recs"
    using row_of_visited_site [OF that] by (simp add: visit_row_def)
  with scenario show ?thesis by blast
qed

text \<open>The scenario at midnight of 2024-08-01, and two records of NANT with the later
  date first.\<close>

theorem nant_scenario_witness:
  "parse_mixed (reference_env (midnight 2024 8 1)) ''01/01/24'' = Some (midnight 2024 1 1)
   \<and> parse_mixed (reference_env (midnight 2024 8 1)) ''06/01/24'' = Some (midnight 2024 6 1)
   \<and> midnight 2024 8 1 \<le> now (reference_env (midnight 2024 8 1))
   \<and> now (reference_env (midnight 2024 8 1)) < midnight 2024 8 2
   \<and> (\<exists>rows st.
       analyze_site_visits_from_sheets (reference_env (midnight 2024 8 1))
         (Fetched [(''Site'', [''NANT'', ''NANT'']), (''Date'', [''01/01/24'', ''06/01/24''])])
         = Returned (rows, st)
     \<and> filter (\<lambda>r. Site r = ''NANT'') rows
         = [\<lparr>Site = ''NANT'', Last_Visit_Date = Some (midnight 2024 6 1), Days_Since_Visit = 61,
             Visit_Required = False, Priority = LOW\<rparr>])
   \<and> ''NANT'' \<in> set TARGET_SITES
   \<and> ''NANT'' \<in> fst ` set [(''NANT'', 5 :: timestamp), (''NANT'', 1)]
   \<and> map Last_Visit_Date
         (filter (\<lambda>r. Site r = ''NANT'') (latest_visits TARGET_SITES length 9 [(''NANT'', 5), (''NANT'', 1)]))
       = [Some 5]"
proof -
  have a: "parse_mixed (reference_env (midnight 2024 8 1)) ''01/01/24'' = Some (midnight 2024 1 1)"
    by (simp add: reference_env_def strptime_jan_1_24)
  have b: "parse_mixed (reference_env (midnight 2024 8 1)) ''06/01/24'' = Some (midnight 2024 6 1)"
    by (simp add: reference_env_def strptime_jun_1_24)
  have c: "midnight 2024 8 1 \<le> now (reference_env (midnight 2024 8 1))"
    by (simp add: reference_env_def)
  have d: "now (reference_env (midnight 2024 8 1)) < midnight 2024 8 2"
    unfolding reference_env_def by code_simp
  have e: "''NANT'' \<in> set TARGET_SITES" by (simp add: TARGET_SITES_def)
  have f: "''NANT'' \<in> fst ` set [(''NANT'', 5 :: timestamp), (''NANT'', 1)]" by simp
  have g: "Max (set (dates_of ''NANT'' [(''NANT'', 5 :: timestamp), (''NANT'', 1)])) = 5"
    by (simp add: dates_of_def)
  from nant_scenario [OF disjI2 [OF a] disjI2 [OF b] c d,
      of "''NANT''" TARGET_SITES "[(''NANT'', 5), (''NANT'', 1)]" length 9] a b c d e f g
  show ?thesis by simp
qed

end
